theory Spec2Isabelle
  imports Main
begin

section \<open>Reminder dispatch worker (src/worker/reminder_worker.py)\<close>

subsection \<open>Text and exceptions\<close>

text \<open>
  A Python \<open>str\<close> and a PostgreSQL \<open>text\<close> value are sequences of code points, and
  \<open>left(s, n)\<close> counts code points, so a string is a list of code points here.
  \<open>ascii\<close> embeds an ASCII literal.
\<close>

type_synonym ustr = "nat list"

definition ascii :: "string \<Rightarrow> ustr" where
  "ascii s = map (of_char :: char \<Rightarrow> nat) s"

text \<open>
  The exceptions the worker meets all derive from Python's \<open>Exception\<close>; each carries
  the text that \<open>str(exc)\<close> returns. Signals outside \<open>Exception\<close> (task cancellation,
  keyboard interrupt) end the worker and are not part of this development.
\<close>

datatype exn =
    RuntimeError ustr
  | TypeError ustr
  | AttributeError ustr
  | StoreError ustr
  | TransportError ustr
  | DecodeError ustr

fun str_exc :: "exn \<Rightarrow> ustr" where
  "str_exc (RuntimeError m) = m"
| "str_exc (TypeError m) = m"
| "str_exc (AttributeError m) = m"
| "str_exc (StoreError m) = m"
| "str_exc (TransportError m) = m"
| "str_exc (DecodeError m) = m"

subsection \<open>Configuration (lines 26-40)\<close>

text \<open>
  The worker's knobs are read from the environment with \<open>int(os.getenv(...))\<close>, so each
  is an arbitrary integer; they are the fields of a configuration every operation takes.
\<close>

record config =
  SLACK_BOT_TOKEN :: ustr
  MAX_BATCH :: int
  VISIBILITY_TIMEOUT_SECS :: int
  MAX_RETRIES :: int
  BACKOFF_BASE_SECS :: int
  BACKOFF_MAX_SECS :: int

definition default_config :: config where
  "default_config =
     \<lparr>SLACK_BOT_TOKEN = [], MAX_BATCH = 10, VISIBILITY_TIMEOUT_SECS = 300,
      MAX_RETRIES = 5, BACKOFF_BASE_SECS = 60, BACKOFF_MAX_SECS = 3600\<rparr>"

subsection \<open>Backoff (lines 43-46)\<close>

text \<open>
  \<open>_seconds_backoff\<close>. A retry count is a natural number: with a negative exponent
  Python's \<open>2 ** retry_count\<close> is a float, which the table of section 3 of the
  specification (\<open>retry_count\<close>: non-negative integer) never produces.
\<close>

definition seconds_backoff :: "config \<Rightarrow> nat \<Rightarrow> int" where
  "seconds_backoff cfg retry_count =
     (let secs = BACKOFF_BASE_SECS cfg * 2 ^ retry_count
      in min secs (BACKOFF_MAX_SECS cfg))"

subsection \<open>The job table\<close>

text \<open>
  Modelled from the spec: the definition of table \<open>scheduled_reminders\<close> is not among the
  source files. Section 3 of the specification gives its columns: a unique id, the
  references, a status of four values, the timestamps (nullable but \<open>scheduled_for\<close>),
  a non-negative \<open>retry_count\<close> and the last error. \<open>retry_count\<close> is kept nullable,
  as \<open>get_retry_count\<close> provides for a null. Timestamps are counted in seconds; the
  statements only compare them and add intervals of whole seconds. Parameters are taken
  to lie in the range of their SQL types.
\<close>

datatype status = Pending | Processing | Sent | Failed

record job =
  job_id :: int
  todo_id :: int
  user_id :: int
  status :: status
  scheduled_for :: int
  visibility_timeout :: "int option"
  started_at :: "int option"
  posted_at :: "int option"
  retry_count :: "nat option"
  error :: "ustr option"

text \<open>SQL \<open>left(s, n)\<close>: the first \<open>n\<close> characters, or all but the last \<open>-n\<close>.\<close>

definition left :: "ustr \<Rightarrow> int \<Rightarrow> ustr" where
  "left s n = (if 0 \<le> n then take (nat n) s else take (length s - nat (- n)) s)"

subsection \<open>claim_jobs (lines 61-84)\<close>

text \<open>
  The statement runs on its own, in one transaction, and \<open>now\<close> is the value of
  \<open>now()\<close> in it. This development follows the statements of one worker, run one after
  the other, so no row is locked by another transaction when the common table expression
  is evaluated. Rows due at the same time are taken in table order (PostgreSQL fixes no
  order among them). A negative \<open>LIMIT\<close> is rejected by PostgreSQL when the statement is
  executed, before any row is changed.
\<close>

definition eligible :: "int \<Rightarrow> job \<Rightarrow> bool" where
  "eligible now j =
     (status j = Pending \<and> scheduled_for j \<le> now \<and>
      (case visibility_timeout j of None \<Rightarrow> True | Some v \<Rightarrow> v \<le> now))"

definition cte :: "int \<Rightarrow> nat \<Rightarrow> job list \<Rightarrow> job list" where
  "cte now n tbl = take n (sort_key scheduled_for (filter (eligible now) tbl))"

definition claim_update :: "config \<Rightarrow> int \<Rightarrow> job \<Rightarrow> job" where
  "claim_update cfg now j =
     j\<lparr>status := Processing,
       started_at := Some now,
       visibility_timeout := Some (now + VISIBILITY_TIMEOUT_SECS cfg)\<rparr>"

text \<open>A returned row: \<open>RETURNING s.id, s.todo_id, s.user_id\<close>.\<close>

type_synonym claimed = "int \<times> int \<times> int"

definition returning :: "job \<Rightarrow> claimed" where
  "returning j = (job_id j, todo_id j, user_id j)"

definition claim_jobs ::
  "config \<Rightarrow> int \<Rightarrow> int \<Rightarrow> job list \<Rightarrow> exn + (claimed list \<times> job list)" where
  "claim_jobs cfg now limit tbl =
     (if limit < 0 then Inl (StoreError (ascii ''LIMIT must not be negative''))
      else
        let sel = cte now (nat limit) tbl;
            ids = map job_id sel
        in Inr (map (returning \<circ> claim_update cfg now) sel,
                map (\<lambda>j. if job_id j \<in> set ids then claim_update cfg now j else j) tbl))"

subsection \<open>mark_sent (lines 123-131)\<close>

definition mark_sent :: "int \<Rightarrow> int \<Rightarrow> job list \<Rightarrow> job list" where
  "mark_sent now reminder_id tbl =
     map (\<lambda>j. if job_id j = reminder_id
               then j\<lparr>status := Sent, posted_at := Some now,
                      visibility_timeout := None, error := None\<rparr>
               else j) tbl"

subsection \<open>requeue_with_backoff (lines 134-164)\<close>

definition fail_update :: "ustr \<Rightarrow> job \<Rightarrow> job" where
  "fail_update error_msg j =
     j\<lparr>status := Failed,
       retry_count := map_option (\<lambda>n. n + 1) (retry_count j),
       visibility_timeout := None,
       posted_at := None,
       error := Some (left error_msg 512)\<rparr>"

definition retry_update :: "int \<Rightarrow> int \<Rightarrow> ustr \<Rightarrow> job \<Rightarrow> job" where
  "retry_update now delay_secs error_msg j =
     j\<lparr>status := Pending,
       retry_count := map_option (\<lambda>n. n + 1) (retry_count j),
       visibility_timeout := None,
       scheduled_for := now + delay_secs,
       started_at := None,
       error := Some (left error_msg 512)\<rparr>"

definition requeue_with_backoff ::
  "config \<Rightarrow> int \<Rightarrow> int \<Rightarrow> nat \<Rightarrow> ustr \<Rightarrow> job list \<Rightarrow> job list" where
  "requeue_with_backoff cfg now reminder_id current_retry error_msg tbl =
     (let next_retry = current_retry + 1
      in if MAX_RETRIES cfg \<le> int next_retry
         then map (\<lambda>j. if job_id j = reminder_id then fail_update error_msg j else j) tbl
         else
           let delay_secs = seconds_backoff cfg next_retry
           in map (\<lambda>j. if job_id j = reminder_id
                        then retry_update now delay_secs error_msg j else j) tbl)"

subsection \<open>get_retry_count (lines 167-171)\<close>

text \<open>
  \<open>fetchval\<close> gives the first column of the first row, and \<open>None\<close> when no row matches or
  the column is null. \<open>val or 0\<close> keeps a truthy \<open>val\<close>; \<open>int(None)\<close> would raise.
\<close>

definition find_job :: "job list \<Rightarrow> int \<Rightarrow> job option" where
  "find_job tbl reminder_id = find (\<lambda>j. job_id j = reminder_id) tbl"

definition fetchval_retry_count :: "job list \<Rightarrow> int \<Rightarrow> nat option" where
  "fetchval_retry_count tbl reminder_id =
     (case find_job tbl reminder_id of None \<Rightarrow> None | Some j \<Rightarrow> retry_count j)"

definition py_or :: "nat option \<Rightarrow> nat \<Rightarrow> nat option" where
  "py_or v d = (case v of None \<Rightarrow> Some d | Some n \<Rightarrow> if n = 0 then Some d else Some n)"

definition py_int :: "nat option \<Rightarrow> exn + nat" where
  "py_int v =
     (case v of
        None \<Rightarrow> Inl (TypeError
          (ascii ''int() argument must be a string, a bytes-like object or a real number, not ''
           @ [39] @ ascii ''NoneType'' @ [39]))
      | Some n \<Rightarrow> Inr n)"

definition get_retry_count :: "job list \<Rightarrow> int \<Rightarrow> exn + nat" where
  "get_retry_count tbl reminder_id =
     (let val = fetchval_retry_count tbl reminder_id in py_int (py_or val 0))"

subsection \<open>A job as the producing service inserts it\<close>

definition pending_job :: "int \<Rightarrow> int \<Rightarrow> job" where
  "pending_job rid t =
     \<lparr>job_id = rid, todo_id = 1, user_id = 1, status = Pending, scheduled_for = t,
      visibility_timeout = None, started_at = None, posted_at = None,
      retry_count = Some 0, error = None\<rparr>"

subsection \<open>Python values\<close>

text \<open>
  What \<open>json.loads\<close> and \<open>resp.json()\<close> return: null, booleans, integers, strings, lists
  and objects (a \<open>dict\<close> has no key twice, so the first match of a key is its value).
  Numbers with a fraction are floats and are left out.
\<close>

datatype pyval =
    PNone
  | PBool bool
  | PInt int
  | PStr ustr
  | PList "pyval list"
  | PDict "(ustr \<times> pyval) list"

text \<open>Truth value testing, as \<open>if x:\<close>, \<open>not x\<close> and \<open>x or y\<close> apply it.\<close>

fun truthy :: "pyval \<Rightarrow> bool" where
  "truthy PNone = False"
| "truthy (PBool b) = b"
| "truthy (PInt i) = (i \<noteq> 0)"
| "truthy (PStr s) = (s \<noteq> [])"
| "truthy (PList xs) = (xs \<noteq> [])"
| "truthy (PDict kvs) = (kvs \<noteq> [])"

fun type_name :: "pyval \<Rightarrow> ustr" where
  "type_name PNone = ascii ''NoneType''"
| "type_name (PBool b) = ascii ''bool''"
| "type_name (PInt i) = ascii ''int''"
| "type_name (PStr s) = ascii ''str''"
| "type_name (PList xs) = ascii ''list''"
| "type_name (PDict kvs) = ascii ''dict''"

text \<open>
  \<open>str(x)\<close>, which an f-string applies to a value: a \<open>str\<close> is itself; the text of any
  other value is the interpreter's, taken as the parameter \<open>fmt\<close>.
\<close>

definition py_str :: "(pyval \<Rightarrow> ustr) \<Rightarrow> pyval \<Rightarrow> ustr" where
  "py_str fmt v = (case v of PStr s \<Rightarrow> s | _ \<Rightarrow> fmt v)"

text \<open>\<open>d.get(k)\<close>: the value of the key, \<open>None\<close> when it is absent.\<close>

definition dict_get :: "(ustr \<times> pyval) list \<Rightarrow> ustr \<Rightarrow> pyval" where
  "dict_get kvs k = (case map_of kvs k of None \<Rightarrow> PNone | Some v \<Rightarrow> v)"

function decimal :: "nat \<Rightarrow> ustr" where
  "decimal n = (if n < 10 then [48 + n] else decimal (n div 10) @ [48 + n mod 10])"
  by pat_completeness auto
termination
  by (relation "measure id") auto

text \<open>\<open>sep.join(xs)\<close> on strings.\<close>

fun str_join :: "ustr \<Rightarrow> ustr list \<Rightarrow> ustr" where
  "str_join sep [] = []"
| "str_join sep [x] = x"
| "str_join sep (x # y # ys) = x @ sep @ str_join sep (y # ys)"

text \<open>
  \<open>sep.join(v)\<close> on a value: it iterates over a list, over the characters of a string
  and over the keys of a dict; an item that is no string raises \<open>TypeError\<close>, as does a
  value that cannot be iterated over.
\<close>

fun str_items :: "nat \<Rightarrow> pyval list \<Rightarrow> exn + ustr list" where
  "str_items i [] = Inr []"
| "str_items i (PStr s # xs) =
     (case str_items (i + 1) xs of Inl e \<Rightarrow> Inl e | Inr ss \<Rightarrow> Inr (s # ss))"
| "str_items i (x # xs) =
     Inl (TypeError (ascii ''sequence item '' @ decimal i @ ascii '': expected str instance, ''
                     @ type_name x @ ascii '' found''))"

definition join_value :: "ustr \<Rightarrow> pyval \<Rightarrow> exn + ustr" where
  "join_value sep v =
     (case v of
        PStr s \<Rightarrow> Inr (str_join sep (map (\<lambda>c. [c]) s))
      | PList xs \<Rightarrow> (case str_items 0 xs of Inl e \<Rightarrow> Inl e | Inr ss \<Rightarrow> Inr (str_join sep ss))
      | PDict kvs \<Rightarrow> Inr (str_join sep (map fst kvs))
      | _ \<Rightarrow> Inl (TypeError (ascii ''can only join an iterable'')))"

subsection \<open>The job detail snapshot\<close>

text \<open>
  Date arithmetic is the standard library's: a \<open>datetime\<close> is given by the calendar
  fields of its instant in UTC, the fields \<open>astimezone(timezone.utc)\<close> returns.
  \<open>strftime\<close> pads the year to four digits and the other fields to two (platforms
  differ on years below 1000 only).
\<close>

record datetime =
  year :: nat
  month :: nat
  day :: nat
  hour :: nat
  minute :: nat

definition digit :: "nat \<Rightarrow> nat" where
  "digit n = 48 + n mod 10"

definition pad2 :: "nat \<Rightarrow> ustr" where
  "pad2 n = [digit (n div 10), digit n]"

definition pad4 :: "nat \<Rightarrow> ustr" where
  "pad4 n = [digit (n div 1000), digit (n div 100), digit (n div 10), digit n]"

text \<open>\<open>strftime("%Y-%m-%d %H:%M UTC")\<close>.\<close>

definition strftime :: "datetime \<Rightarrow> ustr" where
  "strftime d =
     pad4 (year d) @ ascii ''-'' @ pad2 (month d) @ ascii ''-'' @ pad2 (day d) @ ascii '' ''
     @ pad2 (hour d) @ ascii '':'' @ pad2 (minute d) @ ascii '' UTC''"

datatype due = Datetime datetime | NotDatetime pyval

record details =
  d_reminder_id :: int
  d_todo_id :: int
  description :: ustr
  due_date :: due
  payload :: pyval
  d_user_id :: int
  slack_channel :: "ustr option"

subsection \<open>_format_message (lines 189-210)\<close>

text \<open>The pushpin of the heading (U+1F4CC) and the bullet of each line (U+2022).\<close>

definition pushpin :: ustr where
  "pushpin = [128204]"

definition bullet :: ustr where
  "bullet = [8226]"

text \<open>\<open>payload.get(k) if isinstance(payload, dict) else None\<close>.\<close>

definition payload_get :: "pyval \<Rightarrow> ustr \<Rightarrow> pyval" where
  "payload_get p k = (case p of PDict kvs \<Rightarrow> dict_get kvs k | _ \<Rightarrow> PNone)"

text \<open>The list \<open>lines\<close> as it stands before the final join.\<close>

definition message_lines :: "(pyval \<Rightarrow> ustr) \<Rightarrow> details \<Rightarrow> exn + ustr list" where
  "message_lines fmt job =
     (let due = due_date job;
          due_text = (case due of
                        Datetime d \<Rightarrow> strftime d
                      | NotDatetime v \<Rightarrow> py_str fmt v);
          lines = [pushpin @ ascii '' Todo Reminder'',
                   bullet @ ascii '' Description: '' @ description job,
                   bullet @ ascii '' Due: '' @ due_text];
          payload = (if truthy (payload job) then payload job else PDict []);
          tags = payload_get payload (ascii ''tags'');
          priority = payload_get payload (ascii ''priority'');
          notes = payload_get payload (ascii ''notes'')
      in case (if truthy tags
               then (case join_value (ascii '', '') tags of
                       Inl e \<Rightarrow> Inl e
                     | Inr t \<Rightarrow> Inr (lines @ [bullet @ ascii '' Tags: '' @ t]))
               else Inr lines) of
           Inl e \<Rightarrow> Inl e
         | Inr lines \<Rightarrow>
             let lines = (if truthy priority
                          then lines @ [bullet @ ascii '' Priority: '' @ py_str fmt priority]
                          else lines);
                 lines = (if truthy notes
                          then lines @ [bullet @ ascii '' Notes: '' @ py_str fmt notes]
                          else lines)
             in Inr lines)"

definition format_message :: "(pyval \<Rightarrow> ustr) \<Rightarrow> details \<Rightarrow> exn + ustr" where
  "format_message fmt job =
     (case message_lines fmt job of Inl e \<Rightarrow> Inl e | Inr lines \<Rightarrow> Inr (str_join [10] lines))"

subsection \<open>post_to_slack (lines 174-186)\<close>

text \<open>
  What the endpoint does with the request: \<open>client.post\<close> raises (time-out, no
  connection), or it returns a response with a status code whose body \<open>resp.json()\<close>
  fails to decode, or decodes.
\<close>

datatype http =
    PostRaised exn
  | JsonRaised int exn
  | Body int pyval

definition post_to_slack ::
  "(pyval \<Rightarrow> ustr) \<Rightarrow> config \<Rightarrow> http \<Rightarrow> ustr \<Rightarrow> ustr \<Rightarrow> exn + unit" where
  "post_to_slack fmt cfg reply channel text =
     (if SLACK_BOT_TOKEN cfg = []
      then Inl (RuntimeError (ascii ''SLACK_BOT_TOKEN is not configured''))
      else case reply of
             PostRaised e \<Rightarrow> Inl e
           | JsonRaised code e \<Rightarrow> Inl e
           | Body code data \<Rightarrow>
               (case data of
                  PDict kvs \<Rightarrow>
                    if \<not> truthy (dict_get kvs (ascii ''ok''))
                    then Inl (RuntimeError (ascii ''Slack API error: '' @ py_str fmt data))
                    else Inr ()
                | _ \<Rightarrow> Inl (AttributeError ([39] @ type_name data
                                            @ ascii '' object has no attribute '' @ [39]
                                            @ ascii ''get'' @ [39]))))"

subsection \<open>Sample data\<close>

text \<open>The snapshot of section 8 of the specification, and a configuration with a credential.\<close>

definition report_job :: "pyval \<Rightarrow> details" where
  "report_job p =
     \<lparr>d_reminder_id = 1, d_todo_id = 1, description = ascii ''Submit report'',
      due_date = Datetime \<lparr>year = 2024, month = 1, day = 15, hour = 10, minute = 0\<rparr>,
      payload = p, d_user_id = 1, slack_channel = Some (ascii ''C012345'')\<rparr>"

definition token_config :: config where
  "token_config = default_config\<lparr>SLACK_BOT_TOKEN := ascii ''xoxb-1''\<rparr>"

subsection \<open>fetch_job_details (lines 87-120)\<close>

text \<open>
  Modelled from the spec: tables \<open>todos\<close> and \<open>users\<close> are not defined among the source
  files; section 3 gives a todo its description, due date and optional structured payload
  and a user the channel. The worker only reads them. The payload column arrives as SQL
  null or as text, and the text comes with what \<open>json.loads\<close> makes of it (\<open>None\<close> where it
  raises). The query reads three columns of \<open>scheduled_reminders\<close>, those of
  \<open>returning\<close>, and \<open>fetchrow\<close> gives the first row of the join.
\<close>

datatype payload_col = SqlNull | JsonText "pyval option"

record todo =
  t_id :: int
  t_description :: ustr
  t_due_date :: due
  t_payload :: payload_col

record user =
  u_id :: int
  u_slack_channel :: "ustr option"

definition fetch_job_details ::
  "todo list \<Rightarrow> user list \<Rightarrow> job list \<Rightarrow> int \<Rightarrow> details option" where
  "fetch_job_details todos users tbl reminder_id =
     (case [(s_id, t, u). (s_id, s_todo_id, s_user_id) \<leftarrow> map returning tbl,
                          s_id = reminder_id,
                          t \<leftarrow> todos, t_id t = s_todo_id,
                          u \<leftarrow> users, u_id u = s_user_id] of
        [] \<Rightarrow> None
      | (s_id, t, u) # rest \<Rightarrow>
          let payload = (case t_payload t of
                           SqlNull \<Rightarrow> PNone
                         | JsonText None \<Rightarrow> PNone
                         | JsonText (Some v) \<Rightarrow> v)
          in Some \<lparr>d_reminder_id = s_id, d_todo_id = t_id t,
                   description = t_description t, due_date = t_due_date t,
                   payload = payload, d_user_id = u_id u,
                   slack_channel = u_slack_channel u\<rparr>)"

subsection \<open>process_batch (lines 213-241)\<close>

text \<open>
  What the outside world does while one job is processed: for each call to the store
  whether it raises (a lost connection, say), the reply of the endpoint, and the value of
  \<open>now()\<close> in the statement that settles the job. A call to the store that raises leaves
  the table as it was.
\<close>

record job_env =
  fetch_exc :: "exn option"
  early_count_exc :: "exn option"
  early_requeue_exc :: "exn option"
  slack_reply :: http
  mark_exc :: "exn option"
  handler_count_exc :: "exn option"
  handler_requeue_exc :: "exn option"
  stmt_now :: int

text \<open>
  Lines 224 and 228: \<open>get_retry_count\<close>, then \<open>requeue_with_backoff\<close> with a fixed message.
  The result is the exception raised, if any, and the table.
\<close>

definition requeue_missing ::
  "config \<Rightarrow> job_env \<Rightarrow> int \<Rightarrow> ustr \<Rightarrow> job list \<Rightarrow> exn option \<times> job list" where
  "requeue_missing cfg env reminder_id msg tbl =
     (case early_count_exc env of
        Some e \<Rightarrow> (Some e, tbl)
      | None \<Rightarrow>
          (case get_retry_count tbl reminder_id of
             Inl e \<Rightarrow> (Some e, tbl)
           | Inr current_retry \<Rightarrow>
               (case early_requeue_exc env of
                  Some e \<Rightarrow> (Some e, tbl)
                | None \<Rightarrow>
                    (None, requeue_with_backoff cfg (stmt_now env) reminder_id
                             current_retry msg tbl))))"

text \<open>The body of the \<open>try\<close> (lines 221-233).\<close>

definition try_job ::
  "(pyval \<Rightarrow> ustr) \<Rightarrow> config \<Rightarrow> todo list \<Rightarrow> user list \<Rightarrow> job_env \<Rightarrow> int \<Rightarrow> job list
     \<Rightarrow> exn option \<times> job list" where
  "try_job fmt cfg todos users env reminder_id tbl =
     (case fetch_exc env of
        Some e \<Rightarrow> (Some e, tbl)
      | None \<Rightarrow>
          (case fetch_job_details todos users tbl reminder_id of
             None \<Rightarrow> requeue_missing cfg env reminder_id (ascii ''Missing job details'') tbl
           | Some details \<Rightarrow>
               (case slack_channel details of
                  None \<Rightarrow>
                    requeue_missing cfg env reminder_id (ascii ''Missing slack_channel'') tbl
                | Some channel \<Rightarrow>
                    if channel = []
                    then requeue_missing cfg env reminder_id (ascii ''Missing slack_channel'') tbl
                    else
                      (case format_message fmt details of
                         Inl e \<Rightarrow> (Some e, tbl)
                       | Inr text \<Rightarrow>
                           (case post_to_slack fmt cfg (slack_reply env) channel text of
                              Inl e \<Rightarrow> (Some e, tbl)
                            | Inr u \<Rightarrow>
                                (case mark_exc env of
                                   Some e \<Rightarrow> (Some e, tbl)
                                 | None \<Rightarrow>
                                     (None, mark_sent (stmt_now env) reminder_id tbl)))))))"

text \<open>The \<open>try\<close> with its handler (lines 220-240): one turn of the loop over the batch.\<close>

definition process_job ::
  "(pyval \<Rightarrow> ustr) \<Rightarrow> config \<Rightarrow> todo list \<Rightarrow> user list \<Rightarrow> job_env \<Rightarrow> int \<Rightarrow> job list
     \<Rightarrow> job list" where
  "process_job fmt cfg todos users env reminder_id tbl =
     (case try_job fmt cfg todos users env reminder_id tbl of
        (None, tbl1) \<Rightarrow> tbl1
      | (Some exc, tbl1) \<Rightarrow>
          (case handler_count_exc env of
             Some e \<Rightarrow> tbl1
           | None \<Rightarrow>
               (case get_retry_count tbl1 reminder_id of
                  Inl e \<Rightarrow> tbl1
                | Inr current_retry \<Rightarrow>
                    (case handler_requeue_exc env of
                       Some e \<Rightarrow> tbl1
                     | None \<Rightarrow>
                         requeue_with_backoff cfg (stmt_now env) reminder_id
                           current_retry (str_exc exc) tbl1))))"

text \<open>\<open>for row in claimed\<close>; each job meets its own environment.\<close>

fun process_jobs ::
  "(pyval \<Rightarrow> ustr) \<Rightarrow> config \<Rightarrow> todo list \<Rightarrow> user list \<Rightarrow> (int \<Rightarrow> job_env)
     \<Rightarrow> claimed list \<Rightarrow> job list \<Rightarrow> job list" where
  "process_jobs fmt cfg todos users envs [] tbl = tbl"
| "process_jobs fmt cfg todos users envs (row # rows) tbl =
     process_jobs fmt cfg todos users envs rows
       (process_job fmt cfg todos users (envs (fst row)) (fst row) tbl)"

text \<open>
  One batch: the time and the fate of the claim statement, and the environment of each
  job. The result is the number of jobs claimed and the table, or the exception that
  leaves \<open>process_batch\<close>.
\<close>

record batch_env =
  claim_now :: int
  claim_exc :: "exn option"
  job_envs :: "int \<Rightarrow> job_env"

definition process_batch ::
  "(pyval \<Rightarrow> ustr) \<Rightarrow> config \<Rightarrow> todo list \<Rightarrow> user list \<Rightarrow> batch_env \<Rightarrow> job list
     \<Rightarrow> exn + (nat \<times> job list)" where
  "process_batch fmt cfg todos users b tbl =
     (case claim_exc b of
        Some e \<Rightarrow> Inl e
      | None \<Rightarrow>
          (case claim_jobs cfg (claim_now b) (MAX_BATCH cfg) tbl of
             Inl e \<Rightarrow> Inl e
           | Inr (claimed, tbl1) \<Rightarrow>
               if claimed = [] then Inr (0, tbl1)
               else Inr (length claimed,
                         process_jobs fmt cfg todos users (job_envs b) claimed tbl1)))"

text \<open>
  Successive batches of the dispatch loop (lines 286-321, the waiting left out); the run
  ends with the exception that leaves \<open>process_batch\<close>, if one does.
\<close>

fun run_batches ::
  "(pyval \<Rightarrow> ustr) \<Rightarrow> config \<Rightarrow> todo list \<Rightarrow> user list \<Rightarrow> batch_env list \<Rightarrow> job list
     \<Rightarrow> exn + job list" where
  "run_batches fmt cfg todos users [] tbl = Inr tbl"
| "run_batches fmt cfg todos users (b # bs) tbl =
     (case process_batch fmt cfg todos users b tbl of
        Inl e \<Rightarrow> Inl e
      | Inr (n, tbl1) \<Rightarrow> run_batches fmt cfg todos users bs tbl1)"

subsection \<open>Sample batches\<close>

text \<open>One todo and one user with a channel; environments in which the store never fails.\<close>

definition sample_todos :: "todo list" where
  "sample_todos =
     [\<lparr>t_id = 1, t_description = ascii ''Submit report'',
       t_due_date = Datetime \<lparr>year = 2024, month = 1, day = 15, hour = 10, minute = 0\<rparr>,
       t_payload = SqlNull\<rparr>]"

definition sample_users :: "user list" where
  "sample_users = [\<lparr>u_id = 1, u_slack_channel = Some (ascii ''C012345'')\<rparr>]"

definition quiet_env :: "http \<Rightarrow> int \<Rightarrow> job_env" where
  "quiet_env reply now =
     \<lparr>fetch_exc = None, early_count_exc = None, early_requeue_exc = None,
      slack_reply = reply, mark_exc = None, handler_count_exc = None,
      handler_requeue_exc = None, stmt_now = now\<rparr>"

definition reply_ok :: http where
  "reply_ok = Body 200 (PDict [(ascii ''ok'', PBool True)])"

definition reply_timeout :: http where
  "reply_timeout = PostRaised (TransportError (ascii ''timed out''))"

definition two_jobs_batch :: batch_env where
  "two_jobs_batch =
     \<lparr>claim_now = 100, claim_exc = None,
      job_envs = (\<lambda>r. if r = 1 then quiet_env reply_timeout 101 else quiet_env reply_ok 102)\<rparr>"

text \<open>A batch during which the connection to the store is lost after the claim.\<close>

definition lost_connection_batch :: batch_env where
  "lost_connection_batch =
     \<lparr>claim_now = 100, claim_exc = None,
      job_envs = (\<lambda>r. (quiet_env reply_ok 101)
         \<lparr>fetch_exc := Some (StoreError (ascii ''connection is closed'')),
          handler_count_exc := Some (StoreError (ascii ''connection is closed''))\<rparr>)\<rparr>"

subsection \<open>Runs in which the delivery of one job keeps failing\<close>




section \<open>Properties\<close>

subsection \<open>Backoff\<close>

lemma seconds_backoff_eq:
  "seconds_backoff cfg r = min (BACKOFF_BASE_SECS cfg * 2 ^ r) (BACKOFF_MAX_SECS cfg)"
  by (simp add: seconds_backoff_def)

lemma seconds_backoff_mono:
  assumes "0 \<le> BACKOFF_BASE_SECS cfg" and "i \<le> j"
  shows "seconds_backoff cfg i \<le> seconds_backoff cfg j"
proof -
  have "(2::int) ^ i \<le> 2 ^ j"
    using assms(2) by (simp add: power_increasing)
  then have "BACKOFF_BASE_SECS cfg * 2 ^ i \<le> BACKOFF_BASE_SECS cfg * 2 ^ j"
    using assms(1) by (rule mult_left_mono)
  then show ?thesis
    by (simp add: seconds_backoff_eq min_le_iff_disj)
qed

lemma seconds_backoff_default_cap:
  assumes "6 \<le> r"
  shows "seconds_backoff default_config r = 3600"
proof -
  have "(2::int) ^ 6 \<le> 2 ^ r"
    using assms by (intro power_increasing) simp_all
  then have "(3600::int) \<le> 60 * 2 ^ r"
    by simp
  then show ?thesis
    by (simp add: seconds_backoff_eq default_config_def)
qed

text \<open>
  C4 (amended). For every retry count \<open>r\<close> the delay is \<open>min (BASE * 2 ^ r) CAP\<close> and never exceeds
  \<open>CAP\<close>; for a base that is not negative the delay does not decrease as the retry count
  grows; with the defaults the delays are 60, 120, 240, 480, 960, 1920 and from retry 6
  on 3600.
\<close>

theorem seconds_backoff_law:
  "seconds_backoff cfg r = min (BACKOFF_BASE_SECS cfg * 2 ^ r) (BACKOFF_MAX_SECS cfg)
   \<and> seconds_backoff cfg r \<le> BACKOFF_MAX_SECS cfg
   \<and> (0 \<le> BACKOFF_BASE_SECS cfg \<longrightarrow> i \<le> j \<longrightarrow>
        seconds_backoff cfg i \<le> seconds_backoff cfg j)
   \<and> map (seconds_backoff default_config) [0, 1, 2, 3, 4, 5, 6] =
        [60, 120, 240, 480, 960, 1920, 3600]
   \<and> (6 \<le> r \<longrightarrow> seconds_backoff default_config r = 3600)"
proof -
  have "map (seconds_backoff default_config) [0, 1, 2, 3, 4, 5, 6] =
        [60, 120, 240, 480, 960, 1920, 3600]"
    by (simp add: seconds_backoff_eq default_config_def)
  then show ?thesis
    using seconds_backoff_mono [of cfg i j] seconds_backoff_default_cap [of r]
    by (simp add: seconds_backoff_eq)
qed

theorem seconds_backoff_law_witness:
  "(0::int) \<le> BACKOFF_BASE_SECS default_config
   \<and> seconds_backoff default_config 2 \<le> seconds_backoff default_config 9
   \<and> seconds_backoff default_config 9 \<le> BACKOFF_MAX_SECS default_config
   \<and> seconds_backoff default_config 9 = 3600"
  using seconds_backoff_law [of default_config 9 2 9]
  by (simp add: default_config_def)

text \<open>
  With a negative base the delays decrease as the retry count grows.
\<close>

theorem seconds_backoff_negative_base:
  "seconds_backoff (default_config\<lparr>BACKOFF_BASE_SECS := - 60\<rparr>) 0 = - 60
   \<and> seconds_backoff (default_config\<lparr>BACKOFF_BASE_SECS := - 60\<rparr>) 1 = - 120"
  by (simp add: seconds_backoff_def default_config_def)

subsection \<open>The job store\<close>

lemma left_512: "left s 512 = take 512 s"
  by (simp add: left_def)

lemma get_retry_count_eq:
  "get_retry_count tbl rid =
     Inr (case fetchval_retry_count tbl rid of None \<Rightarrow> 0 | Some n \<Rightarrow> n)"
  by (simp add: get_retry_count_def py_int_def py_or_def split: option.splits)

text \<open>
  C10. \<open>get_retry_count\<close> never raises: it returns 0 when no row has the id and when
  the row's \<open>retry_count\<close> is null, and the stored count otherwise.
\<close>

theorem get_retry_count_total:
  "(find_job tbl rid = None \<longrightarrow> get_retry_count tbl rid = Inr 0)
   \<and> (\<forall>j. find_job tbl rid = Some j \<longrightarrow> retry_count j = None \<longrightarrow>
          get_retry_count tbl rid = Inr 0)
   \<and> (\<forall>j n. find_job tbl rid = Some j \<longrightarrow> retry_count j = Some n \<longrightarrow>
          get_retry_count tbl rid = Inr n)
   \<and> (\<exists>n. get_retry_count tbl rid = Inr n)"
  by (simp add: get_retry_count_eq fetchval_retry_count_def)

theorem get_retry_count_total_witness:
  "find_job [pending_job 1 0] 7 = None \<and> get_retry_count [pending_job 1 0] 7 = Inr 0
   \<and> find_job [(pending_job 1 0)\<lparr>retry_count := None\<rparr>] 1 = Some ((pending_job 1 0)\<lparr>retry_count := None\<rparr>)
   \<and> get_retry_count [(pending_job 1 0)\<lparr>retry_count := None\<rparr>] 1 = Inr 0
   \<and> get_retry_count [(pending_job 1 0)\<lparr>retry_count := Some 3\<rparr>] 1 = Inr 3"
  using get_retry_count_total [of "[pending_job 1 0]" 7]
    get_retry_count_total [of "[(pending_job 1 0)\<lparr>retry_count := None\<rparr>]" 1]
    get_retry_count_total [of "[(pending_job 1 0)\<lparr>retry_count := Some 3\<rparr>]" 1]
  by (simp add: find_job_def pending_job_def)

lemma requeue_length:
  "length (requeue_with_backoff cfg now rid r e tbl) = length tbl"
  by (simp add: requeue_with_backoff_def Let_def)

lemma requeue_nth:
  assumes "i < length tbl"
  shows "requeue_with_backoff cfg now rid r e tbl ! i =
     (if job_id (tbl ! i) = rid
      then (if MAX_RETRIES cfg \<le> int r + 1 then fail_update e (tbl ! i)
            else retry_update now (seconds_backoff cfg (r + 1)) e (tbl ! i))
      else tbl ! i)"
  using assms by (simp add: requeue_with_backoff_def Let_def)

text \<open>
  C2. \<open>requeue_with_backoff\<close> changes exactly the rows with the given id. When
  \<open>r + 1 \<ge> MAX_RETRIES\<close> such a row becomes \<open>failed\<close>, its \<open>retry_count\<close> one higher,
  \<open>visibility_timeout\<close> and \<open>posted_at\<close> null and \<open>error\<close> the truncated message; when
  \<open>r + 1 < MAX_RETRIES\<close> it becomes \<open>pending\<close> again, its \<open>retry_count\<close> one higher,
  \<open>visibility_timeout\<close> and \<open>started_at\<close> null, \<open>scheduled_for\<close> the time of the statement
  plus the backoff of \<open>r + 1\<close>, and \<open>error\<close> the truncated message.
\<close>

theorem requeue_with_backoff_effect:
  "length (requeue_with_backoff cfg now rid r e tbl) = length tbl
   \<and> (\<forall>i<length tbl.
        (job_id (tbl ! i) \<noteq> rid \<longrightarrow> requeue_with_backoff cfg now rid r e tbl ! i = tbl ! i)
      \<and> (job_id (tbl ! i) = rid \<longrightarrow> MAX_RETRIES cfg \<le> int r + 1 \<longrightarrow>
           requeue_with_backoff cfg now rid r e tbl ! i =
             (tbl ! i)\<lparr>status := Failed,
                       retry_count := map_option (\<lambda>n. n + 1) (retry_count (tbl ! i)),
                       visibility_timeout := None,
                       posted_at := None,
                       error := Some (take 512 e)\<rparr>)
      \<and> (job_id (tbl ! i) = rid \<longrightarrow> int r + 1 < MAX_RETRIES cfg \<longrightarrow>
           requeue_with_backoff cfg now rid r e tbl ! i =
             (tbl ! i)\<lparr>status := Pending,
                       retry_count := map_option (\<lambda>n. n + 1) (retry_count (tbl ! i)),
                       visibility_timeout := None,
                       scheduled_for := now + seconds_backoff cfg (r + 1),
                       started_at := None,
                       error := Some (take 512 e)\<rparr>))"
  by (simp add: requeue_length requeue_nth fail_update_def retry_update_def left_512)

lemma fail_update_error: "error (fail_update e j) = Some (take 512 e)"
  by (simp add: fail_update_def left_512)

lemma retry_update_error: "error (retry_update now d e j) = Some (take 512 e)"
  by (simp add: retry_update_def left_512)

lemma fail_update_id: "job_id (fail_update e j) = job_id j"
  by (simp add: fail_update_def)

lemma retry_update_id: "job_id (retry_update now d e j) = job_id j"
  by (simp add: retry_update_def)

text \<open>
  C9. In both branches of \<open>requeue_with_backoff\<close> the \<open>error\<close> stored in a row with the
  given id is the first 512 characters of the message, so at most 512 characters long.
\<close>

theorem requeue_error_truncated:
  "\<forall>j' \<in> set (requeue_with_backoff cfg now rid r e tbl).
     job_id j' = rid \<longrightarrow>
       error j' = Some (take 512 e) \<and> (\<exists>s. error j' = Some s \<and> length s \<le> 512)"
proof (intro ballI impI)
  fix j'
  assume mem: "j' \<in> set (requeue_with_backoff cfg now rid r e tbl)" and rid: "job_id j' = rid"
  from mem obtain i where i: "i < length tbl"
    and j': "j' = requeue_with_backoff cfg now rid r e tbl ! i"
    by (metis in_set_conv_nth requeue_length)
  have "job_id (tbl ! i) = rid"
    using rid i j' by (simp add: requeue_nth fail_update_id retry_update_id split: if_splits)
  then have "error j' = Some (take 512 e)"
    using i j' by (simp add: requeue_nth fail_update_error retry_update_error)
  then show "error j' = Some (take 512 e) \<and> (\<exists>s. error j' = Some s \<and> length s \<le> 512)"
    by simp
qed

theorem requeue_error_truncated_witness:
  "map error (requeue_with_backoff default_config 100 1 4 (replicate 600 120) [pending_job 1 0])
     = [Some (replicate 512 120)]
   \<and> map error (requeue_with_backoff default_config 100 1 0 (replicate 600 120) [pending_job 1 0])
     = [Some (replicate 512 120)]
   \<and> map status (requeue_with_backoff default_config 100 1 4 (replicate 600 120) [pending_job 1 0])
     = [Failed]
   \<and> map status (requeue_with_backoff default_config 100 1 0 (replicate 600 120) [pending_job 1 0])
     = [Pending]"
  using requeue_error_truncated [of default_config 100 1 4 "replicate 600 120" "[pending_job 1 0]"]
    requeue_error_truncated [of default_config 100 1 0 "replicate 600 120" "[pending_job 1 0]"]
  by (simp add: requeue_with_backoff_def default_config_def pending_job_def
      fail_update_def retry_update_def left_512)

theorem requeue_with_backoff_effect_witness:
  "requeue_with_backoff default_config 100 1 4 (ascii ''boom'') [pending_job 1 0, pending_job 2 0]
     = [(pending_job 1 0)\<lparr>status := Failed, retry_count := Some 1, error := Some (ascii ''boom'')\<rparr>,
        pending_job 2 0]
   \<and> requeue_with_backoff default_config 100 1 0 (ascii ''boom'') [pending_job 1 0, pending_job 2 0]
     = [(pending_job 1 0)\<lparr>retry_count := Some 1, scheduled_for := 220, error := Some (ascii ''boom'')\<rparr>,
        pending_job 2 0]"
  using requeue_with_backoff_effect [of default_config 100 1 4 "ascii ''boom''" "[pending_job 1 0, pending_job 2 0]"]
    requeue_with_backoff_effect [of default_config 100 1 0 "ascii ''boom''" "[pending_job 1 0, pending_job 2 0]"]
  by (simp add: requeue_with_backoff_def default_config_def pending_job_def
      fail_update_def retry_update_def left_512 seconds_backoff_def ascii_def)

lemma cte_subset: "set (cte now n tbl) \<subseteq> {j \<in> set tbl. eligible now j}"
  by (auto simp: cte_def dest: in_set_takeD)

lemma cte_sorted: "sorted (map scheduled_for (cte now n tbl))"
  by (simp add: cte_def take_map [symmetric] sorted_wrt_take)

lemma cte_length:
  "length (cte now n tbl) = min n (length (filter (eligible now) tbl))"
  by (simp add: cte_def min.commute)

lemma cte_earliest:
  assumes "j \<in> set tbl" and "eligible now j" and "j \<notin> set (cte now n tbl)"
    and "s \<in> set (cte now n tbl)"
  shows "scheduled_for s \<le> scheduled_for j"
proof -
  let ?xs = "sort_key scheduled_for (filter (eligible now) tbl)"
  have "j \<in> set ?xs"
    using assms(1,2) by simp
  then have "j \<in> set (take n ?xs) \<union> set (drop n ?xs)"
    by (metis append_take_drop_id set_append)
  then have j: "j \<in> set (drop n ?xs)"
    using assms(3) by (simp add: cte_def)
  have "sorted (map scheduled_for (take n ?xs) @ map scheduled_for (drop n ?xs))"
    by (simp add: map_append [symmetric] del: map_append)
  then have "\<forall>a \<in> set (take n ?xs). \<forall>b \<in> set (drop n ?xs). scheduled_for a \<le> scheduled_for b"
    by (simp add: sorted_append)
  then show ?thesis
    using j assms(4) by (simp add: cte_def)
qed

lemma claim_update_id: "job_id (claim_update cfg now j) = job_id j"
  by (simp add: claim_update_def)

lemma returning_claim_update: "returning (claim_update cfg now j) = returning j"
  by (simp add: returning_def claim_update_def)

lemma claim_jobs_eq:
  assumes "0 \<le> limit"
  shows "claim_jobs cfg now limit tbl =
     Inr (map returning (cte now (nat limit) tbl),
          map (\<lambda>j. if job_id j \<in> job_id ` set (cte now (nat limit) tbl)
                    then claim_update cfg now j else j) tbl)"
  using assms by (simp add: claim_jobs_def Let_def returning_claim_update)

text \<open>
  C1 (amended). For every limit that is not negative, \<open>claim_jobs\<close> returns the rows of
  the common table expression: at most \<open>limit\<close> jobs, all of them pending, due and with no
  unexpired visibility timeout, in ascending order of \<open>scheduled_for\<close> and no later due
  than any eligible job left out. In the same statement exactly the rows with a selected
  id become \<open>processing\<close> with \<open>started_at = now\<close> and
  \<open>visibility_timeout = now + VISIBILITY_TIMEOUT_SECS\<close>. When no job is eligible the result
  is the empty list and the table is unchanged.
\<close>

theorem claim_jobs_contract:
  assumes "0 \<le> limit"
  shows "\<exists>tbl'. claim_jobs cfg now limit tbl = Inr (map returning (cte now (nat limit) tbl), tbl')
    \<and> length (cte now (nat limit) tbl) \<le> nat limit
    \<and> length (cte now (nat limit) tbl) = min (nat limit) (length (filter (eligible now) tbl))
    \<and> (\<forall>j \<in> set (cte now (nat limit) tbl).
          j \<in> set tbl \<and> status j = Pending \<and> scheduled_for j \<le> now
          \<and> (visibility_timeout j = None \<or> (\<exists>v. visibility_timeout j = Some v \<and> v \<le> now)))
    \<and> sorted (map scheduled_for (cte now (nat limit) tbl))
    \<and> (\<forall>j \<in> set tbl. eligible now j \<longrightarrow> j \<notin> set (cte now (nat limit) tbl) \<longrightarrow>
          (\<forall>s \<in> set (cte now (nat limit) tbl). scheduled_for s \<le> scheduled_for j))
    \<and> length tbl' = length tbl
    \<and> (\<forall>i<length tbl.
          tbl' ! i =
            (if job_id (tbl ! i) \<in> job_id ` set (cte now (nat limit) tbl)
             then (tbl ! i)\<lparr>status := Processing, started_at := Some now,
                             visibility_timeout := Some (now + VISIBILITY_TIMEOUT_SECS cfg)\<rparr>
             else tbl ! i))
    \<and> (\<forall>j \<in> set (cte now (nat limit) tbl).
          j\<lparr>status := Processing, started_at := Some now,
            visibility_timeout := Some (now + VISIBILITY_TIMEOUT_SECS cfg)\<rparr> \<in> set tbl')
    \<and> (filter (eligible now) tbl = [] \<longrightarrow>
          claim_jobs cfg now limit tbl = Inr ([], tbl))"
proof -
  let ?sel = "cte now (nat limit) tbl"
  let ?tbl' = "map (\<lambda>j. if job_id j \<in> job_id ` set ?sel then claim_update cfg now j else j) tbl"
  have eq: "claim_jobs cfg now limit tbl = Inr (map returning ?sel, ?tbl')"
    using assms by (rule claim_jobs_eq)
  have len: "length ?sel = min (nat limit) (length (filter (eligible now) tbl))"
    by (rule cte_length)
  have elig: "\<forall>j \<in> set ?sel.
          j \<in> set tbl \<and> status j = Pending \<and> scheduled_for j \<le> now
          \<and> (visibility_timeout j = None \<or> (\<exists>v. visibility_timeout j = Some v \<and> v \<le> now))"
    using cte_subset [of now "nat limit" tbl]
    by (auto simp: eligible_def split: option.splits)
  have early: "\<forall>j \<in> set tbl. eligible now j \<longrightarrow> j \<notin> set ?sel \<longrightarrow>
          (\<forall>s \<in> set ?sel. scheduled_for s \<le> scheduled_for j)"
    using cte_earliest by blast
  have nth: "\<forall>i<length tbl.
          ?tbl' ! i =
            (if job_id (tbl ! i) \<in> job_id ` set ?sel
             then (tbl ! i)\<lparr>status := Processing, started_at := Some now,
                             visibility_timeout := Some (now + VISIBILITY_TIMEOUT_SECS cfg)\<rparr>
             else tbl ! i)"
    by (simp add: claim_update_def)
  have upd: "\<forall>j \<in> set ?sel.
          j\<lparr>status := Processing, started_at := Some now,
            visibility_timeout := Some (now + VISIBILITY_TIMEOUT_SECS cfg)\<rparr> \<in> set ?tbl'"
  proof
    fix j assume j: "j \<in> set ?sel"
    then have "j \<in> set tbl" using cte_subset by blast
    moreover have "job_id j \<in> job_id ` set ?sel" using j by simp
    ultimately have "claim_update cfg now j \<in> set ?tbl'"
      unfolding set_map by (intro image_eqI [where x = j]) simp_all
    then show "j\<lparr>status := Processing, started_at := Some now,
            visibility_timeout := Some (now + VISIBILITY_TIMEOUT_SECS cfg)\<rparr> \<in> set ?tbl'"
      by (simp add: claim_update_def)
  qed
  have none: "filter (eligible now) tbl = [] \<longrightarrow> claim_jobs cfg now limit tbl = Inr ([], tbl)"
  proof
    assume "filter (eligible now) tbl = []"
    then have "?sel = []" by (simp add: cte_def)
    then show "claim_jobs cfg now limit tbl = Inr ([], tbl)"
      using eq by simp
  qed
  show ?thesis
    apply (rule exI [of _ ?tbl'])
    apply (intro conjI)
    apply (rule eq)
    apply (simp add: len)
    apply (rule len)
    apply (rule elig)
    apply (rule cte_sorted)
    apply (rule early)
    apply simp
    apply (rule nth)
    apply (rule upd)
    apply (rule none)
    done
qed

text \<open>
  With a negative limit the statement is rejected, also when no row matches.
\<close>

theorem claim_jobs_negative_limit:
  "claim_jobs default_config 0 (- 1) [] = Inl (StoreError (ascii ''LIMIT must not be negative''))"
  by (simp add: claim_jobs_def)

theorem claim_jobs_contract_witness:
  "(0::int) \<le> 2
   \<and> cte 100 2 [pending_job 1 50, pending_job 2 10, (pending_job 3 20)\<lparr>status := Sent\<rparr>,
                  pending_job 4 30, pending_job 5 500] = [pending_job 2 10, pending_job 4 30]
   \<and> claim_jobs default_config 100 2
        [pending_job 1 50, pending_job 2 10, (pending_job 3 20)\<lparr>status := Sent\<rparr>,
         pending_job 4 30, pending_job 5 500] =
       Inr ([(2, 1, 1), (4, 1, 1)],
            [pending_job 1 50,
             (pending_job 2 10)\<lparr>status := Processing, started_at := Some 100,
                                 visibility_timeout := Some 400\<rparr>,
             (pending_job 3 20)\<lparr>status := Sent\<rparr>,
             (pending_job 4 30)\<lparr>status := Processing, started_at := Some 100,
                                 visibility_timeout := Some 400\<rparr>,
             pending_job 5 500])
   \<and> claim_jobs default_config 100 2 [pending_job 5 500] = Inr ([], [pending_job 5 500])"
  using claim_jobs_contract [of 2 default_config 100
      "[pending_job 1 50, pending_job 2 10, (pending_job 3 20)\<lparr>status := Sent\<rparr>,
        pending_job 4 30, pending_job 5 500]"]
    claim_jobs_contract [of 2 default_config 100 "[pending_job 5 500]"]
  by (simp add: claim_jobs_def cte_def eligible_def pending_job_def claim_update_def
      returning_def default_config_def)

subsection \<open>Rendering\<close>








lemmas render_simps =
  format_message_def message_lines_def report_job_def Let_def payload_get_def dict_get_def
  strftime_def pad2_def pad4_def digit_def ascii_def join_value_def py_str_def



subsection \<open>Delivery\<close>

lemma post_to_slack_ok_iff:
  "post_to_slack fmt cfg reply channel text = Inr () \<longleftrightarrow>
     SLACK_BOT_TOKEN cfg \<noteq> [] \<and>
     (\<exists>code kvs. reply = Body code (PDict kvs) \<and> truthy (dict_get kvs (ascii ''ok'')))"
  by (cases reply; cases "SLACK_BOT_TOKEN cfg = []")
     (auto simp: post_to_slack_def split: pyval.splits)

text \<open>
  C6 (amended). \<open>post_to_slack\<close> returns normally exactly when the credential is
  configured and the decoded body is an object whose \<open>ok\<close> member is truthy; in every
  other case it raises: no credential, the call or the decoding raised, a body that is no
  object, an \<open>ok\<close> that is absent or falsy. The status code of the response plays no
  part.
\<close>

theorem post_to_slack_outcome:
  "(post_to_slack fmt cfg reply channel text = Inr () \<longleftrightarrow>
      SLACK_BOT_TOKEN cfg \<noteq> [] \<and>
      (\<exists>code kvs. reply = Body code (PDict kvs) \<and> truthy (dict_get kvs (ascii ''ok''))))
   \<and> (\<exists>r. post_to_slack fmt cfg reply channel text = Inr () \<or>
            post_to_slack fmt cfg reply channel text = Inl r)
   \<and> (SLACK_BOT_TOKEN cfg \<noteq> [] \<longrightarrow>
        (\<forall>code kvs. \<not> truthy (dict_get kvs (ascii ''ok'')) \<longrightarrow>
           post_to_slack fmt cfg (Body code (PDict kvs)) channel text =
             Inl (RuntimeError (ascii ''Slack API error: '' @ py_str fmt (PDict kvs))))
      \<and> (\<forall>e. post_to_slack fmt cfg (PostRaised e) channel text = Inl e)
      \<and> (\<forall>code e. post_to_slack fmt cfg (JsonRaised code e) channel text = Inl e))
   \<and> (\<forall>code code' data.
        post_to_slack fmt cfg (Body code data) channel text =
        post_to_slack fmt cfg (Body code' data) channel text)"
proof (intro conjI)
  show "post_to_slack fmt cfg reply channel text = Inr () \<longleftrightarrow>
      SLACK_BOT_TOKEN cfg \<noteq> [] \<and>
      (\<exists>code kvs. reply = Body code (PDict kvs) \<and> truthy (dict_get kvs (ascii ''ok'')))"
    by (rule post_to_slack_ok_iff)
  show "\<exists>r. post_to_slack fmt cfg reply channel text = Inr () \<or>
            post_to_slack fmt cfg reply channel text = Inl r"
    by (cases "post_to_slack fmt cfg reply channel text") auto
  show "SLACK_BOT_TOKEN cfg \<noteq> [] \<longrightarrow>
        (\<forall>code kvs. \<not> truthy (dict_get kvs (ascii ''ok'')) \<longrightarrow>
           post_to_slack fmt cfg (Body code (PDict kvs)) channel text =
             Inl (RuntimeError (ascii ''Slack API error: '' @ py_str fmt (PDict kvs))))
      \<and> (\<forall>e. post_to_slack fmt cfg (PostRaised e) channel text = Inl e)
      \<and> (\<forall>code e. post_to_slack fmt cfg (JsonRaised code e) channel text = Inl e)"
    by (simp add: post_to_slack_def)
  show "\<forall>code code' data.
        post_to_slack fmt cfg (Body code data) channel text =
        post_to_slack fmt cfg (Body code' data) channel text"
    by (simp add: post_to_slack_def)
qed

theorem post_to_slack_outcome_witness:
  "SLACK_BOT_TOKEN token_config \<noteq> []
   \<and> post_to_slack (\<lambda>v. ascii ''{}'') token_config
        (Body 200 (PDict [(ascii ''ok'', PBool False), (ascii ''error'', PStr (ascii ''channel_not_found''))]))
        (ascii ''C012345'') (ascii ''hello'') =
       Inl (RuntimeError (ascii ''Slack API error: {}''))
   \<and> post_to_slack (\<lambda>v. ascii ''{}'') token_config
        (Body 200 (PDict [(ascii ''ok'', PBool True)])) (ascii ''C012345'') (ascii ''hello'') = Inr ()
   \<and> post_to_slack (\<lambda>v. ascii ''{}'') token_config
        (PostRaised (TransportError (ascii ''timed out''))) (ascii ''C012345'') (ascii ''hello'') =
       Inl (TransportError (ascii ''timed out''))"
  using post_to_slack_outcome [of "\<lambda>v. ascii ''{}''" token_config
      "Body 200 (PDict [(ascii ''ok'', PBool False), (ascii ''error'', PStr (ascii ''channel_not_found''))])"
      "ascii ''C012345''" "ascii ''hello''"]
  by (simp add: post_to_slack_def token_config_def default_config_def dict_get_def ascii_def
      py_str_def)

text \<open>
  A response with status 500 whose body says \<open>ok\<close> counts as delivered.
\<close>

theorem post_to_slack_ignores_status:
  "post_to_slack (\<lambda>v. []) token_config (Body 500 (PDict [(ascii ''ok'', PBool True)]))
     (ascii ''C012345'') (ascii ''hello'') = Inr ()"
  by (simp add: post_to_slack_def token_config_def default_config_def dict_get_def ascii_def)

subsection \<open>Processing a batch\<close>

lemma mark_sent_returning: "map returning (mark_sent now r tbl) = map returning tbl"
  by (simp add: mark_sent_def returning_def)

lemma requeue_returning:
  "map returning (requeue_with_backoff cfg now r c m tbl) = map returning tbl"
  by (simp add: requeue_with_backoff_def Let_def returning_def fail_update_def retry_update_def)

lemma filter_mark_sent:
  "filter (\<lambda>j. job_id j = r) (mark_sent now r' tbl) =
     (if r = r' then mark_sent now r' (filter (\<lambda>j. job_id j = r) tbl)
      else filter (\<lambda>j. job_id j = r) tbl)"
  by (induction tbl) (auto simp: mark_sent_def)

lemma filter_requeue:
  "filter (\<lambda>j. job_id j = r) (requeue_with_backoff cfg now r' c m tbl) =
     (if r = r' then requeue_with_backoff cfg now r' c m (filter (\<lambda>j. job_id j = r) tbl)
      else filter (\<lambda>j. job_id j = r) tbl)"
  by (induction tbl)
     (auto simp: requeue_with_backoff_def Let_def fail_update_def retry_update_def)

lemma find_job_filter: "find_job (filter (\<lambda>j. job_id j = r) tbl) r = find_job tbl r"
  by (induction tbl) (auto simp: find_job_def)

lemma get_retry_count_filter:
  "get_retry_count (filter (\<lambda>j. job_id j = r) tbl) r = get_retry_count tbl r"
  by (simp add: get_retry_count_def fetchval_retry_count_def find_job_filter)

lemma fetch_job_details_filter:
  "fetch_job_details todos users (filter (\<lambda>j. job_id j = r) tbl) r =
   fetch_job_details todos users tbl r"
proof -
  have "[(s_id, t, u). (s_id, s_todo_id, s_user_id) \<leftarrow> map returning (filter (\<lambda>j. job_id j = r) tbl),
                          s_id = r, t \<leftarrow> todos, t_id t = s_todo_id,
                          u \<leftarrow> users, u_id u = s_user_id] =
        [(s_id, t, u). (s_id, s_todo_id, s_user_id) \<leftarrow> map returning tbl,
                          s_id = r, t \<leftarrow> todos, t_id t = s_todo_id,
                          u \<leftarrow> users, u_id u = s_user_id]"
    by (induction tbl) (auto simp: returning_def)
  then show ?thesis
    by (simp add: fetch_job_details_def)
qed


lemma requeue_missing_cases:
  "requeue_missing cfg env r m tbl = (None, requeue_with_backoff cfg (stmt_now env) r
      (case get_retry_count tbl r of Inr c \<Rightarrow> c | Inl e \<Rightarrow> 0) m tbl)
   \<or> (\<exists>e. requeue_missing cfg env r m tbl = (Some e, tbl))"
  by (auto simp: requeue_missing_def split: option.splits sum.splits)

lemma try_job_cases:
  "(\<exists>e. try_job fmt cfg todos users env r tbl = (Some e, tbl))
   \<or> try_job fmt cfg todos users env r tbl = (None, mark_sent (stmt_now env) r tbl)
   \<or> (\<exists>c m. try_job fmt cfg todos users env r tbl =
         (None, requeue_with_backoff cfg (stmt_now env) r c m tbl))"
proof -
  have rm: "\<And>m. (\<exists>e. requeue_missing cfg env r m tbl = (Some e, tbl))
    \<or> (\<exists>c. requeue_missing cfg env r m tbl =
          (None, requeue_with_backoff cfg (stmt_now env) r c m tbl))"
    using requeue_missing_cases by blast
  show ?thesis
    unfolding try_job_def
    using rm [of "ascii ''Missing job details''"] rm [of "ascii ''Missing slack_channel''"]
    by (auto split: option.splits sum.splits)
qed

lemma process_job_cases:
  "process_job fmt cfg todos users env r tbl = tbl
   \<or> process_job fmt cfg todos users env r tbl = mark_sent (stmt_now env) r tbl
   \<or> (\<exists>c m. process_job fmt cfg todos users env r tbl =
         requeue_with_backoff cfg (stmt_now env) r c m tbl)"
proof -
  consider (raised) e where "try_job fmt cfg todos users env r tbl = (Some e, tbl)"
    | (sent) "try_job fmt cfg todos users env r tbl = (None, mark_sent (stmt_now env) r tbl)"
    | (requeued) c m where "try_job fmt cfg todos users env r tbl =
         (None, requeue_with_backoff cfg (stmt_now env) r c m tbl)"
    using try_job_cases [of fmt cfg todos users env r tbl] by blast
  then show ?thesis
  proof cases
    case raised
    then have "process_job fmt cfg todos users env r tbl = tbl
      \<or> process_job fmt cfg todos users env r tbl =
          requeue_with_backoff cfg (stmt_now env) r
            (case get_retry_count tbl r of Inr c \<Rightarrow> c | Inl e \<Rightarrow> 0) (str_exc e) tbl"
      by (simp add: process_job_def split: option.splits sum.splits)
    then show ?thesis by blast
  next
    case sent
    then show ?thesis by (simp add: process_job_def)
  next
    case requeued
    then have "process_job fmt cfg todos users env r tbl =
        requeue_with_backoff cfg (stmt_now env) r c m tbl"
      by (simp add: process_job_def)
    then show ?thesis by blast
  qed
qed

lemma process_job_returning:
  "map returning (process_job fmt cfg todos users env r tbl) = map returning tbl"
  using process_job_cases [of fmt cfg todos users env r tbl]
  by (auto simp: mark_sent_returning requeue_returning)

lemma process_job_other:
  assumes "r \<noteq> r'"
  shows "filter (\<lambda>j. job_id j = r) (process_job fmt cfg todos users env r' tbl) =
         filter (\<lambda>j. job_id j = r) tbl"
  using process_job_cases [of fmt cfg todos users env r' tbl] assms
  by (auto simp: filter_mark_sent filter_requeue)

lemma requeue_missing_filter:
  "requeue_missing cfg env r m (filter (\<lambda>j. job_id j = r) tbl) =
     (fst (requeue_missing cfg env r m tbl),
      filter (\<lambda>j. job_id j = r) (snd (requeue_missing cfg env r m tbl)))"
  by (simp add: requeue_missing_def get_retry_count_filter filter_requeue
      split: option.splits sum.splits)

lemma try_job_filter:
  "try_job fmt cfg todos users env r (filter (\<lambda>j. job_id j = r) tbl) =
     (fst (try_job fmt cfg todos users env r tbl),
      filter (\<lambda>j. job_id j = r) (snd (try_job fmt cfg todos users env r tbl)))"
  by (simp add: try_job_def fetch_job_details_filter requeue_missing_filter filter_mark_sent
      split: option.splits sum.splits)

lemma process_job_filter:
  "process_job fmt cfg todos users env r (filter (\<lambda>j. job_id j = r) tbl) =
   filter (\<lambda>j. job_id j = r) (process_job fmt cfg todos users env r tbl)"
proof -
  obtain x t where t: "try_job fmt cfg todos users env r tbl = (x, t)"
    by (cases "try_job fmt cfg todos users env r tbl")
  then have tf: "try_job fmt cfg todos users env r (filter (\<lambda>j. job_id j = r) tbl) =
     (x, filter (\<lambda>j. job_id j = r) t)"
    by (simp add: try_job_filter)
  show ?thesis
    unfolding process_job_def t tf
    by (simp add: get_retry_count_filter filter_requeue split: option.splits sum.splits)
qed

lemma process_jobs_other:
  assumes "r \<notin> fst ` set rows"
  shows "filter (\<lambda>j. job_id j = r) (process_jobs fmt cfg todos users envs rows tbl) =
         filter (\<lambda>j. job_id j = r) tbl"
  using assms
proof (induction rows arbitrary: tbl)
  case Nil
  then show ?case by simp
next
  case (Cons row rows)
  then have "r \<noteq> fst row" and "r \<notin> fst ` set rows"
    by auto
  then show ?case
    using Cons.IH [of "process_job fmt cfg todos users (envs (fst row)) (fst row) tbl"]
    by (simp add: process_job_other)
qed

lemma process_jobs_returning:
  "map returning (process_jobs fmt cfg todos users envs rows tbl) = map returning tbl"
  by (induction rows arbitrary: tbl) (simp_all add: process_job_returning)

lemma process_jobs_isolated:
  assumes "r \<in> fst ` set rows" and "distinct (map fst rows)"
  shows "filter (\<lambda>j. job_id j = r) (process_jobs fmt cfg todos users envs rows tbl) =
         filter (\<lambda>j. job_id j = r) (process_job fmt cfg todos users (envs r) r tbl)"
  using assms
proof (induction rows arbitrary: tbl)
  case Nil
  then show ?case by simp
next
  case (Cons row rows)
  let ?P = "\<lambda>j. job_id j = r"
  let ?step = "process_job fmt cfg todos users (envs (fst row)) (fst row) tbl"
  show ?case
  proof (cases "fst row = r")
    case True
    then have "r \<notin> fst ` set rows"
      using Cons.prems(2) by auto
    then show ?thesis
      using True by (simp add: process_jobs_other)
  next
    case False
    then have mem: "r \<in> fst ` set rows" and dist: "distinct (map fst rows)"
      using Cons.prems by auto
    have same: "filter ?P ?step = filter ?P tbl"
      using False by (simp add: process_job_other)
    have "filter ?P (process_jobs fmt cfg todos users envs rows ?step) =
          filter ?P (process_job fmt cfg todos users (envs r) r ?step)"
      using Cons.IH [OF mem dist] .
    also have "\<dots> = process_job fmt cfg todos users (envs r) r (filter ?P ?step)"
      by (simp add: process_job_filter)
    also have "\<dots> = process_job fmt cfg todos users (envs r) r (filter ?P tbl)"
      by (simp add: same)
    also have "\<dots> = filter ?P (process_job fmt cfg todos users (envs r) r tbl)"
      by (simp add: process_job_filter)
    finally show ?thesis
      by simp
  qed
qed

lemma try_job_unchanged:
  assumes "try_job fmt cfg todos users env r tbl = (Some e, t)"
  shows "t = tbl"
  using try_job_cases [of fmt cfg todos users env r tbl] assms by auto

lemma cte_distinct:
  assumes "distinct (map job_id tbl)"
  shows "distinct (map job_id (cte now n tbl))"
proof -
  have "distinct (map job_id (filter (eligible now) tbl))"
    using assms by (rule distinct_map_filter)
  then have "distinct (map job_id (sort_key scheduled_for (filter (eligible now) tbl)))"
    by (simp add: distinct_map)
  then show ?thesis
    unfolding cte_def take_map [symmetric] by (rule distinct_take)
qed

lemma claim_jobs_rows:
  assumes "claim_jobs cfg now limit tbl = Inr (rows, tbl1)"
  shows "0 \<le> limit" and "rows = map returning (cte now (nat limit) tbl)"
    and "tbl1 = map (\<lambda>j. if job_id j \<in> job_id ` set (cte now (nat limit) tbl)
                          then claim_update cfg now j else j) tbl"
proof -
  show l: "0 \<le> limit"
    using assms by (simp add: claim_jobs_def split: if_splits)
  show "rows = map returning (cte now (nat limit) tbl)"
    and "tbl1 = map (\<lambda>j. if job_id j \<in> job_id ` set (cte now (nat limit) tbl)
                          then claim_update cfg now j else j) tbl"
    using assms claim_jobs_eq [OF l, of cfg now tbl] by simp_all
qed

lemma claim_jobs_distinct_rows:
  assumes "distinct (map job_id tbl)" and "claim_jobs cfg now limit tbl = Inr (rows, tbl1)"
  shows "distinct (map fst rows)"
proof -
  have "map fst rows = map job_id (cte now (nat limit) tbl)"
    using claim_jobs_rows(2) [OF assms(2)] by (simp add: returning_def comp_def)
  then show ?thesis
    using cte_distinct [OF assms(1)] by simp
qed

lemma process_batch_eq:
  assumes "claim_exc b = None"
    and "claim_jobs cfg (claim_now b) (MAX_BATCH cfg) tbl = Inr (rows, tbl1)"
  shows "process_batch fmt cfg todos users b tbl =
     Inr (length rows, process_jobs fmt cfg todos users (job_envs b) rows tbl1)"
  using assms by (simp add: process_batch_def)

lemma process_job_handler:
  assumes "try_job fmt cfg todos users env r tbl = (Some e, t)"
  shows "handler_count_exc env = None \<and> handler_requeue_exc env = None \<longrightarrow>
      (\<exists>c. get_retry_count tbl r = Inr c \<and>
         process_job fmt cfg todos users env r tbl =
           requeue_with_backoff cfg (stmt_now env) r c (str_exc e) tbl)"
    and "handler_count_exc env \<noteq> None \<or> handler_requeue_exc env \<noteq> None \<longrightarrow>
      process_job fmt cfg todos users env r tbl = tbl"
proof -
  have t: "t = tbl"
    using assms by (rule try_job_unchanged)
  obtain c where c: "get_retry_count tbl r = Inr c"
    using get_retry_count_eq by blast
  show "handler_count_exc env = None \<and> handler_requeue_exc env = None \<longrightarrow>
      (\<exists>c. get_retry_count tbl r = Inr c \<and>
         process_job fmt cfg todos users env r tbl =
           requeue_with_backoff cfg (stmt_now env) r c (str_exc e) tbl)"
    using assms t c by (simp add: process_job_def)
  show "handler_count_exc env \<noteq> None \<or> handler_requeue_exc env \<noteq> None \<longrightarrow>
      process_job fmt cfg todos users env r tbl = tbl"
    using assms t c by (auto simp: process_job_def split: option.splits)
qed

lemma try_job_stages:
  "(fetch_exc env = Some e \<longrightarrow> try_job fmt cfg todos users env r tbl = (Some e, tbl))"
  "(fetch_exc env = None \<and> fetch_job_details todos users tbl r = Some d
      \<and> slack_channel d = Some ch \<and> ch \<noteq> [] \<and> format_message fmt d = Inl e
    \<longrightarrow> try_job fmt cfg todos users env r tbl = (Some e, tbl))"
  "(fetch_exc env = None \<and> fetch_job_details todos users tbl r = Some d
      \<and> slack_channel d = Some ch \<and> ch \<noteq> [] \<and> format_message fmt d = Inr text
      \<and> post_to_slack fmt cfg (slack_reply env) ch text = Inl e
    \<longrightarrow> try_job fmt cfg todos users env r tbl = (Some e, tbl))"
  "(fetch_exc env = None \<and> fetch_job_details todos users tbl r = Some d
      \<and> slack_channel d = Some ch \<and> ch \<noteq> [] \<and> format_message fmt d = Inr text
      \<and> post_to_slack fmt cfg (slack_reply env) ch text = Inr () \<and> mark_exc env = Some e
    \<longrightarrow> try_job fmt cfg todos users env r tbl = (Some e, tbl))"
  "(fetch_exc env = None \<and> fetch_job_details todos users tbl r = Some d
      \<and> slack_channel d = Some ch \<and> ch \<noteq> [] \<and> format_message fmt d = Inr text
      \<and> post_to_slack fmt cfg (slack_reply env) ch text = Inr () \<and> mark_exc env = None
    \<longrightarrow> try_job fmt cfg todos users env r tbl = (None, mark_sent (stmt_now env) r tbl))"
  by (simp_all add: try_job_def)

text \<open>
  C7 (amended). Whenever the claim statement succeeds, \<open>process_batch\<close> returns normally
  with the number of claimed jobs, whatever is raised while the jobs are processed. An
  exception raised while the snapshot is fetched, the message rendered, the message
  delivered or the job marked as sent leaves the \<open>try\<close> with the table untouched and
  reaches the handler. When the handler's two calls to the store go through, it becomes
  \<open>requeue_with_backoff\<close> with the text of the exception; when one of them raises, the
  exception is swallowed and the table stays as it is. With distinct claimed ids, what a
  batch does to the rows of a claimed job is what processing that job alone does to them:
  the fate of no other job changes it.
\<close>

theorem process_batch_isolates_failures:
  "(\<forall>rows tbl1. claim_exc b = None \<longrightarrow>
       claim_jobs cfg (claim_now b) (MAX_BATCH cfg) tbl = Inr (rows, tbl1) \<longrightarrow>
       process_batch fmt cfg todos users b tbl =
         Inr (length rows, process_jobs fmt cfg todos users (job_envs b) rows tbl1)
       \<and> (distinct (map job_id tbl) \<longrightarrow> distinct (map fst rows)))
   \<and> (\<forall>e d ch text.
        (fetch_exc env = Some e \<longrightarrow> try_job fmt cfg todos users env r tbl = (Some e, tbl))
      \<and> (fetch_exc env = None \<and> fetch_job_details todos users tbl r = Some d
           \<and> slack_channel d = Some ch \<and> ch \<noteq> [] \<and> format_message fmt d = Inl e
         \<longrightarrow> try_job fmt cfg todos users env r tbl = (Some e, tbl))
      \<and> (fetch_exc env = None \<and> fetch_job_details todos users tbl r = Some d
           \<and> slack_channel d = Some ch \<and> ch \<noteq> [] \<and> format_message fmt d = Inr text
           \<and> post_to_slack fmt cfg (slack_reply env) ch text = Inl e
         \<longrightarrow> try_job fmt cfg todos users env r tbl = (Some e, tbl))
      \<and> (fetch_exc env = None \<and> fetch_job_details todos users tbl r = Some d
           \<and> slack_channel d = Some ch \<and> ch \<noteq> [] \<and> format_message fmt d = Inr text
           \<and> post_to_slack fmt cfg (slack_reply env) ch text = Inr () \<and> mark_exc env = Some e
         \<longrightarrow> try_job fmt cfg todos users env r tbl = (Some e, tbl)))
   \<and> (\<forall>e t. try_job fmt cfg todos users env r tbl = (Some e, t) \<longrightarrow>
        t = tbl
      \<and> (handler_count_exc env = None \<and> handler_requeue_exc env = None \<longrightarrow>
           (\<exists>c. get_retry_count tbl r = Inr c \<and>
              process_job fmt cfg todos users env r tbl =
                requeue_with_backoff cfg (stmt_now env) r c (str_exc e) tbl))
      \<and> (handler_count_exc env \<noteq> None \<or> handler_requeue_exc env \<noteq> None \<longrightarrow>
           process_job fmt cfg todos users env r tbl = tbl))
   \<and> (\<forall>rows envs. r \<in> fst ` set rows \<longrightarrow> distinct (map fst rows) \<longrightarrow>
        filter (\<lambda>j. job_id j = r) (process_jobs fmt cfg todos users envs rows tbl) =
        filter (\<lambda>j. job_id j = r) (process_job fmt cfg todos users (envs r) r tbl))"
proof (intro conjI allI impI)
  fix rows tbl1
  assume "claim_exc b = None"
    and "claim_jobs cfg (claim_now b) (MAX_BATCH cfg) tbl = Inr (rows, tbl1)"
  then show "process_batch fmt cfg todos users b tbl =
         Inr (length rows, process_jobs fmt cfg todos users (job_envs b) rows tbl1)"
    by (rule process_batch_eq)
next
  fix rows tbl1
  assume "claim_jobs cfg (claim_now b) (MAX_BATCH cfg) tbl = Inr (rows, tbl1)"
    and "distinct (map job_id tbl)"
  then show "distinct (map fst rows)"
    using claim_jobs_distinct_rows by blast
next
  fix e d ch mtext
  assume "fetch_exc env = Some e"
  then show "try_job fmt cfg todos users env r tbl = (Some e, tbl)"
    using try_job_stages(1) by blast
next
  fix e d ch mtext
  assume "fetch_exc env = None \<and> fetch_job_details todos users tbl r = Some d
           \<and> slack_channel d = Some ch \<and> ch \<noteq> [] \<and> format_message fmt d = Inl e"
  then show "try_job fmt cfg todos users env r tbl = (Some e, tbl)"
    using try_job_stages(2) by blast
next
  fix e d ch mtext
  assume "fetch_exc env = None \<and> fetch_job_details todos users tbl r = Some d
           \<and> slack_channel d = Some ch \<and> ch \<noteq> [] \<and> format_message fmt d = Inr mtext
           \<and> post_to_slack fmt cfg (slack_reply env) ch mtext = Inl e"
  then show "try_job fmt cfg todos users env r tbl = (Some e, tbl)"
    using try_job_stages(3) by blast
next
  fix e d ch mtext
  assume "fetch_exc env = None \<and> fetch_job_details todos users tbl r = Some d
           \<and> slack_channel d = Some ch \<and> ch \<noteq> [] \<and> format_message fmt d = Inr mtext
           \<and> post_to_slack fmt cfg (slack_reply env) ch mtext = Inr () \<and> mark_exc env = Some e"
  then show "try_job fmt cfg todos users env r tbl = (Some e, tbl)"
    using try_job_stages(4) by blast
next
  fix e t
  assume "try_job fmt cfg todos users env r tbl = (Some e, t)"
  then show "t = tbl"
    by (rule try_job_unchanged)
next
  fix e t
  assume "try_job fmt cfg todos users env r tbl = (Some e, t)"
    and "handler_count_exc env = None \<and> handler_requeue_exc env = None"
  then show "\<exists>c. get_retry_count tbl r = Inr c \<and>
              process_job fmt cfg todos users env r tbl =
                requeue_with_backoff cfg (stmt_now env) r c (str_exc e) tbl"
    using process_job_handler(1) by blast
next
  fix e t
  assume "try_job fmt cfg todos users env r tbl = (Some e, t)"
    and "handler_count_exc env \<noteq> None \<or> handler_requeue_exc env \<noteq> None"
  then show "process_job fmt cfg todos users env r tbl = tbl"
    using process_job_handler(2) by blast
next
  fix rows :: "claimed list" and envs
  assume "r \<in> fst ` set rows" and "distinct (map fst rows)"
  then show "filter (\<lambda>j. job_id j = r) (process_jobs fmt cfg todos users envs rows tbl) =
        filter (\<lambda>j. job_id j = r) (process_job fmt cfg todos users (envs r) r tbl)"
    by (rule process_jobs_isolated)
qed

lemmas store_simps =
  claim_jobs_def cte_def eligible_def pending_job_def claim_update_def returning_def
  default_config_def token_config_def mark_sent_def requeue_with_backoff_def
  get_retry_count_def fetchval_retry_count_def find_job_def py_or_def py_int_def
  retry_update_def fail_update_def left_512 seconds_backoff_def

lemmas batch_simps =
  process_batch_def process_job_def try_job_def requeue_missing_def fetch_job_details_def
  sample_todos_def sample_users_def quiet_env_def reply_ok_def reply_timeout_def
  post_to_slack_def two_jobs_batch_def

theorem process_batch_isolates_failures_witness:
  "claim_exc two_jobs_batch = None
   \<and> claim_jobs token_config (claim_now two_jobs_batch) (MAX_BATCH token_config)
        [pending_job 1 0, pending_job 2 0] =
       Inr ([(1, 1, 1), (2, 1, 1)],
            [(pending_job 1 0)\<lparr>status := Processing, started_at := Some 100,
                                visibility_timeout := Some 400\<rparr>,
             (pending_job 2 0)\<lparr>status := Processing, started_at := Some 100,
                                visibility_timeout := Some 400\<rparr>])
   \<and> process_batch (\<lambda>v. []) token_config sample_todos sample_users two_jobs_batch
        [pending_job 1 0, pending_job 2 0] =
       Inr (2,
            [(pending_job 1 0)\<lparr>retry_count := Some 1, scheduled_for := 221,
                                error := Some (ascii ''timed out'')\<rparr>,
             (pending_job 2 0)\<lparr>status := Sent, started_at := Some 100,
                                posted_at := Some 102\<rparr>])"
  using process_batch_isolates_failures [where b = two_jobs_batch and cfg = token_config
      and tbl = "[pending_job 1 0, pending_job 2 0]" and fmt = "\<lambda>v. []"
      and todos = sample_todos and users = sample_users
      and env = "quiet_env reply_timeout 101" and r = 1]
  by (simp add: store_simps batch_simps render_simps)

text \<open>
  When the store fails in the handler as well, nothing is written: the job stays
  \<open>processing\<close>, with no error recorded and its retry count as it was.
\<close>

theorem handler_failure_is_swallowed:
  "process_batch (\<lambda>v. []) token_config sample_todos sample_users lost_connection_batch
     [pending_job 1 0] =
   Inr (1, [(pending_job 1 0)\<lparr>status := Processing, started_at := Some 100,
                               visibility_timeout := Some 400\<rparr>])"
  by (simp add: store_simps batch_simps render_simps lost_connection_batch_def)

subsection \<open>Terminal jobs\<close>

lemma map_job_id_returning: "map job_id tbl = map fst (map returning tbl)"
  by (simp add: returning_def comp_def)

lemma claim_jobs_returning:
  assumes "claim_jobs cfg now limit tbl = Inr (rows, tbl1)"
  shows "map returning tbl1 = map returning tbl"
  unfolding claim_jobs_rows(3) [OF assms]
  by (simp add: returning_claim_update)

lemma filter_claimed_other:
  assumes "r \<notin> S"
  shows "filter (\<lambda>j. job_id j = r)
           (map (\<lambda>j. if job_id j \<in> S then claim_update cfg now j else j) xs) =
         filter (\<lambda>j. job_id j = r) xs"
  using assms by (induction xs) (auto simp: claim_update_id)

lemma claim_jobs_other:
  assumes "claim_jobs cfg now limit tbl = Inr (rows, tbl1)" and "r \<notin> fst ` set rows"
  shows "filter (\<lambda>j. job_id j = r) tbl1 = filter (\<lambda>j. job_id j = r) tbl"
proof -
  have "fst ` set rows = job_id ` set (cte now (nat limit) tbl)"
    unfolding claim_jobs_rows(2) [OF assms(1)]
    by (force simp: returning_def)
  then have r: "r \<notin> job_id ` set (cte now (nat limit) tbl)"
    using assms(2) by simp
  have "filter (\<lambda>j. job_id j = r)
          (map (\<lambda>j. if job_id j \<in> job_id ` set (cte now (nat limit) tbl)
                    then claim_update cfg now j else j) tbl) =
        filter (\<lambda>j. job_id j = r) tbl"
    using r by (rule filter_claimed_other)
  then show ?thesis
    unfolding claim_jobs_rows(3) [OF assms(1)] .
qed

lemma find_job_distinct:
  assumes "distinct (map job_id tbl)" and "j \<in> set tbl"
  shows "find_job tbl (job_id j) = Some j"
  using assms unfolding find_job_def
  by (induction tbl) (auto simp: image_iff)

lemma find_job_same_rows:
  assumes "filter (\<lambda>j. job_id j = r) tbl' = filter (\<lambda>j. job_id j = r) tbl"
  shows "find_job tbl' r = find_job tbl r"
  using assms find_job_filter by metis

lemma terminal_not_selected:
  assumes "distinct (map job_id tbl)" and "j \<in> set tbl" and "status j \<noteq> Pending"
  shows "job_id j \<notin> job_id ` set (cte now n tbl)"
proof
  assume "job_id j \<in> job_id ` set (cte now n tbl)"
  then obtain s where s: "s \<in> set (cte now n tbl)" and id: "job_id s = job_id j"
    by auto
  have "s \<in> set tbl" and "eligible now s"
    using s cte_subset by blast+
  moreover have "inj_on job_id (set tbl)"
    using assms(1) by (simp add: distinct_map)
  ultimately have "s = j"
    using id assms(2) by (auto dest: inj_onD)
  then show False
    using \<open>eligible now s\<close> assms(3) by (simp add: eligible_def)
qed

lemma terminal_not_claimed:
  assumes "distinct (map job_id tbl)" and "j \<in> set tbl" and "status j \<noteq> Pending"
    and "claim_jobs cfg now limit tbl = Inr (rows, tbl1)"
  shows "job_id j \<notin> fst ` set rows"
proof -
  have "fst ` set rows = job_id ` set (cte now (nat limit) tbl)"
    unfolding claim_jobs_rows(2) [OF assms(4)]
    by (force simp: returning_def)
  then show ?thesis
    using terminal_not_selected [OF assms(1-3)] by simp
qed

lemma process_batch_returning:
  assumes "process_batch fmt cfg todos users b tbl = Inr (n, tbl')"
  shows "map returning tbl' = map returning tbl"
proof -
  from assms obtain rows tbl1 where
    c: "claim_jobs cfg (claim_now b) (MAX_BATCH cfg) tbl = Inr (rows, tbl1)"
    and t: "tbl' = process_jobs fmt cfg todos users (job_envs b) rows tbl1"
    by (auto simp: process_batch_def split: option.splits sum.splits if_splits)
  show ?thesis
    unfolding t by (simp add: process_jobs_returning claim_jobs_returning [OF c])
qed

lemma process_batch_other:
  assumes "process_batch fmt cfg todos users b tbl = Inr (n, tbl')"
    and "claim_jobs cfg (claim_now b) (MAX_BATCH cfg) tbl = Inr (rows, tbl1)"
    and "r \<notin> fst ` set rows"
  shows "filter (\<lambda>j. job_id j = r) tbl' = filter (\<lambda>j. job_id j = r) tbl"
proof -
  have "tbl' = process_jobs fmt cfg todos users (job_envs b) rows tbl1"
    using assms(1,2) by (auto simp: process_batch_def split: option.splits if_splits)
  then show ?thesis
    using assms(3) by (simp add: process_jobs_other claim_jobs_other [OF assms(2,3)])
qed

lemma process_batch_claims:
  assumes "process_batch fmt cfg todos users b tbl = Inr (n, tbl')"
  shows "\<exists>rows tbl1. claim_jobs cfg (claim_now b) (MAX_BATCH cfg) tbl = Inr (rows, tbl1)"
  using assms by (auto simp: process_batch_def split: option.splits sum.splits)

lemma process_batch_keeps:
  assumes "distinct (map job_id tbl)" and "j \<in> set tbl" and "status j \<noteq> Pending"
    and "process_batch fmt cfg todos users b tbl = Inr (n, tbl')"
  shows "find_job tbl' (job_id j) = Some j" and "distinct (map job_id tbl')"
    and "j \<in> set tbl'"
proof -
  obtain rows tbl1 where c: "claim_jobs cfg (claim_now b) (MAX_BATCH cfg) tbl = Inr (rows, tbl1)"
    using process_batch_claims [OF assms(4)] by blast
  have "job_id j \<notin> fst ` set rows"
    using terminal_not_claimed [OF assms(1-3) c] .
  then have "filter (\<lambda>s. job_id s = job_id j) tbl' = filter (\<lambda>s. job_id s = job_id j) tbl"
    using process_batch_other [OF assms(4) c] by blast
  then have "find_job tbl' (job_id j) = find_job tbl (job_id j)"
    by (rule find_job_same_rows)
  then show f: "find_job tbl' (job_id j) = Some j"
    using find_job_distinct [OF assms(1,2)] by simp
  show "distinct (map job_id tbl')"
    using assms(1) process_batch_returning [OF assms(4)]
    by (simp add: map_job_id_returning)
  show "j \<in> set tbl'"
    using f unfolding find_job_def by (auto simp: find_Some_iff)
qed

lemma run_batches_keeps:
  assumes "distinct (map job_id tbl)" and "j \<in> set tbl" and "status j \<noteq> Pending"
    and "run_batches fmt cfg todos users bs tbl = Inr tbl'"
  shows "find_job tbl' (job_id j) = Some j \<and> distinct (map job_id tbl')"
  using assms
proof (induction bs arbitrary: tbl)
  case Nil
  then show ?case
    by (simp add: find_job_distinct)
next
  case (Cons b bs)
  from Cons.prems(4) obtain n tbl1 where
    pb: "process_batch fmt cfg todos users b tbl = Inr (n, tbl1)"
    and rest: "run_batches fmt cfg todos users bs tbl1 = Inr tbl'"
    by (auto split: sum.splits)
  show ?case
    using Cons.IH [OF process_batch_keeps(2) [OF Cons.prems(1-3) pb]
        process_batch_keeps(3) [OF Cons.prems(1-3) pb] Cons.prems(3) rest] .
qed

text \<open>
  C5 (amended). In a table with unique ids, a job that is \<open>sent\<close> or \<open>failed\<close> is never
  among the rows \<open>claim_jobs\<close> returns, and it is left exactly as it is by \<open>claim_jobs\<close>,
  by \<open>process_batch\<close> and by every run of batches; the ids stay unique, so this holds from
  every table a run reaches.
\<close>

theorem terminal_jobs_stay:
  assumes "distinct (map job_id tbl)" and "j \<in> set tbl"
    and "status j = Sent \<or> status j = Failed"
  shows "(\<forall>now limit rows tbl1. claim_jobs cfg now limit tbl = Inr (rows, tbl1) \<longrightarrow>
            job_id j \<notin> fst ` set rows \<and> find_job tbl1 (job_id j) = Some j)
    \<and> (\<forall>b n tbl'. process_batch fmt cfg todos users b tbl = Inr (n, tbl') \<longrightarrow>
            find_job tbl' (job_id j) = Some j \<and> distinct (map job_id tbl'))
    \<and> (\<forall>bs tbl'. run_batches fmt cfg todos users bs tbl = Inr tbl' \<longrightarrow>
            find_job tbl' (job_id j) = Some j \<and> distinct (map job_id tbl'))"
proof (intro conjI allI impI)
  have np: "status j \<noteq> Pending"
    using assms(3) by auto
  {
    fix now limit rows tbl1
    assume c: "claim_jobs cfg now limit tbl = Inr (rows, tbl1)"
    show nr: "job_id j \<notin> fst ` set rows"
      using terminal_not_claimed [OF assms(1,2) np c] .
    have "find_job tbl1 (job_id j) = find_job tbl (job_id j)"
      using claim_jobs_other [OF c nr] by (rule find_job_same_rows)
    then show "find_job tbl1 (job_id j) = Some j"
      using find_job_distinct [OF assms(1,2)] by simp
  }
  {
    fix b n tbl'
    assume pb: "process_batch fmt cfg todos users b tbl = Inr (n, tbl')"
    show "find_job tbl' (job_id j) = Some j"
      using process_batch_keeps(1) [OF assms(1,2) np pb] .
    show "distinct (map job_id tbl')"
      using process_batch_keeps(2) [OF assms(1,2) np pb] .
  }
  {
    fix bs tbl'
    assume rb: "run_batches fmt cfg todos users bs tbl = Inr tbl'"
    show "find_job tbl' (job_id j) = Some j"
      using run_batches_keeps [OF assms(1,2) np rb] by simp
    show "distinct (map job_id tbl')"
      using run_batches_keeps [OF assms(1,2) np rb] by simp
  }
qed

theorem terminal_jobs_stay_witness:
  "distinct (map job_id [(pending_job 1 0)\<lparr>status := Failed\<rparr>, pending_job 2 0])
   \<and> status ((pending_job 1 0)\<lparr>status := Failed\<rparr>) = Failed
   \<and> process_batch (\<lambda>v. []) token_config sample_todos sample_users two_jobs_batch
        [(pending_job 1 0)\<lparr>status := Failed\<rparr>, pending_job 2 0] =
       Inr (1,
            [(pending_job 1 0)\<lparr>status := Failed\<rparr>,
             (pending_job 2 0)\<lparr>status := Sent, started_at := Some 100,
                                posted_at := Some 102\<rparr>])
   \<and> run_batches (\<lambda>v. []) token_config sample_todos sample_users
        [two_jobs_batch, two_jobs_batch]
        [(pending_job 1 0)\<lparr>status := Failed\<rparr>, pending_job 2 0] =
       Inr [(pending_job 1 0)\<lparr>status := Failed\<rparr>,
            (pending_job 2 0)\<lparr>status := Sent, started_at := Some 100,
                               posted_at := Some 102\<rparr>]"
  using terminal_jobs_stay [where tbl = "[(pending_job 1 0)\<lparr>status := Failed\<rparr>, pending_job 2 0]"
      and j = "(pending_job 1 0)\<lparr>status := Failed\<rparr>" and cfg = token_config
      and fmt = "\<lambda>v. []" and todos = sample_todos and users = sample_users]
  by (simp add: store_simps batch_simps render_simps)

text \<open>
  The two updates carry no condition on the status: applied to the id of a terminal job,
  \<open>requeue_with_backoff\<close> makes a sent job pending and \<open>mark_sent\<close> makes a failed job
  sent.
\<close>

theorem unguarded_updates_move_terminal_jobs:
  "map status (requeue_with_backoff default_config 100 1 0 (ascii ''boom'')
                 [(pending_job 1 0)\<lparr>status := Sent\<rparr>]) = [Pending]
   \<and> map status (mark_sent 100 1 [(pending_job 1 0)\<lparr>status := Failed\<rparr>]) = [Sent]"
  by (simp add: store_simps)

subsection \<open>Exhaustion\<close>











end
